theory Spec2Isabelle
  imports Main "HOL-Library.Word"
begin

unbundle bit_operations_syntax

section \<open>Shared types\<close>

text \<open>
  Go's \<^verbatim>\<open>byte\<close> is an 8-bit word, \<^verbatim>\<open>uint64\<close> a 64-bit word (slots, sizes), a
  \<^verbatim>\<open>[]byte\<close> and a \<^verbatim>\<open>[32]byte\<close> are lists of bytes. Go's \<^verbatim>\<open>error\<close> values are the
  constructors of one datatype; a function returning \<^verbatim>\<open>(T, error)\<close> returns
  \<open>error + T\<close>, and a pointer result that may be \<^verbatim>\<open>nil\<close> is an \<open>option\<close>.
\<close>

type_synonym byte = "8 word"
type_synonym root = "byte list"

datatype error =
    errUnknownStateSummary
  | StoreFailure string
  | Wrap error string
  | NilPointerDereference
  | LibraryError string
  | EOF
  | errExcessMaxLength
  | MaxSizeExceedsChunkSize "64 word" "64 word"
  | DecodedSizeExceedsMax "64 word" "64 word"
  | EncodedSizeExceedsMax nat "64 word"
  | NegativeSliceLength

section \<open>Package stategen: getter.go\<close>

subsection \<open>Protocol buffers and configuration\<close>

text \<open>
  \<^verbatim>\<open>pb.StateSummary{Slot, Root}\<close> and the signed block \<^verbatim>\<open>b\<close> with its
  \<^verbatim>\<open>b.Block.Slot\<close>. \<^verbatim>\<open>params.BeaconConfig().ZeroHash\<close> is the all-zero
  \<^verbatim>\<open>[32]byte\<close>.
\<close>

record StateSummary =
  summary_Slot :: "64 word"
  summary_Root :: "byte list"

record BeaconBlock =
  block_Slot :: "64 word"
  block_ParentRoot :: "byte list"
  block_Body :: "byte list"

record SignedBeaconBlock =
  Block :: BeaconBlock
  Signature :: "byte list"

definition ZeroHash :: root where
  "ZeroHash = replicate 32 0"

subsection \<open>The persistent store and the summary cache\<close>

text \<open>
  Modelled from the spec: the persistent store behind \<^verbatim>\<open>s.beaconDB\<close> is an interface
  whose implementation is not among the sources. The spec (sections 3 and 6) makes it the
  owner of states, blocks and summaries, keyed by root, with the operations
  \<^verbatim>\<open>getState\<close>, \<^verbatim>\<open>getStateSummary\<close>, \<^verbatim>\<open>hasStateSummary\<close>, \<^verbatim>\<open>saveStateSummary\<close>,
  \<^verbatim>\<open>getBlock\<close> and \<^verbatim>\<open>hasBlock\<close>, and lists a transient I/O failure of the store among
  the errors (section 7). The store is three maps; \<open>db_fault\<close> says which calls fail, and
  with which error. A lookup that finds nothing returns \<^verbatim>\<open>nil\<close> with no error; the two
  existence probes return a bare \<^verbatim>\<open>bool\<close>.
\<close>

datatype db_call = CallState | CallStateSummary | CallBlock | CallSaveStateSummary

record 'st BeaconDB =
  db_states :: "root \<rightharpoonup> 'st"
  db_summaries :: "root \<rightharpoonup> StateSummary"
  db_blocks :: "root \<rightharpoonup> SignedBeaconBlock"
  db_fault :: "db_call \<Rightarrow> root \<Rightarrow> error option"

definition db_State :: "'st BeaconDB \<Rightarrow> root \<Rightarrow> error + 'st option" where
  "db_State db r =
     (case db_fault db CallState r of
        Some err \<Rightarrow> Inl err
      | None \<Rightarrow> Inr (db_states db r))"

definition db_HasStateSummary :: "'st BeaconDB \<Rightarrow> root \<Rightarrow> bool" where
  "db_HasStateSummary db r = (case db_summaries db r of None \<Rightarrow> False | Some _ \<Rightarrow> True)"

definition db_StateSummary :: "'st BeaconDB \<Rightarrow> root \<Rightarrow> error + StateSummary option" where
  "db_StateSummary db r =
     (case db_fault db CallStateSummary r of
        Some err \<Rightarrow> Inl err
      | None \<Rightarrow> Inr (db_summaries db r))"

definition db_HasBlock :: "'st BeaconDB \<Rightarrow> root \<Rightarrow> bool" where
  "db_HasBlock db r = (case db_blocks db r of None \<Rightarrow> False | Some _ \<Rightarrow> True)"

definition db_Block :: "'st BeaconDB \<Rightarrow> root \<Rightarrow> error + SignedBeaconBlock option" where
  "db_Block db r =
     (case db_fault db CallBlock r of
        Some err \<Rightarrow> Inl err
      | None \<Rightarrow> Inr (db_blocks db r))"

definition db_SaveStateSummary :: "'st BeaconDB \<Rightarrow> StateSummary \<Rightarrow> error + 'st BeaconDB" where
  "db_SaveStateSummary db summary =
     (case db_fault db CallSaveStateSummary (summary_Root summary) of
        Some err \<Rightarrow> Inl err
      | None \<Rightarrow> Inr (db\<lparr>db_summaries := (db_summaries db)(summary_Root summary \<mapsto> summary)\<rparr>))"

text \<open>
  Modelled from the spec: the summary cache behind \<^verbatim>\<open>s.stateSummaryCache\<close> is not among
  the sources. The spec (section 2) makes it an in-memory mapping from a root to its
  (slot, root) descriptor; \<^verbatim>\<open>Has\<close> is membership and \<^verbatim>\<open>Get\<close> the lookup.
\<close>

type_synonym StateSummaryCache = "root \<rightharpoonup> StateSummary"

definition cache_Has :: "StateSummaryCache \<Rightarrow> root \<Rightarrow> bool" where
  "cache_Has c r = (case c r of None \<Rightarrow> False | Some _ \<Rightarrow> True)"

definition cache_Get :: "StateSummaryCache \<Rightarrow> root \<Rightarrow> StateSummary option" where
  "cache_Get c r = c r"

subsection \<open>The service and its loaders\<close>

text \<open>
  The receiver \<^verbatim>\<open>s *State\<close> with the three fields getter.go reads. The four loaders
  (\<^verbatim>\<open>loadColdStateByRoot\<close>, \<^verbatim>\<open>loadHotStateByRoot\<close>, \<^verbatim>\<open>loadColdStateBySlot\<close>,
  \<^verbatim>\<open>loadHotStateBySlot\<close>) are methods of the same receiver defined in other files; they
  are parameters here, free to read and update the whole service. The tracing spans
  (\<^verbatim>\<open>trace.StartSpan\<close>, \<^verbatim>\<open>span.End\<close>) touch nothing the functions compute with and are
  left out.
\<close>

record splitInfo =
  split_slot :: "64 word"
  split_root :: root

record 'st State =
  beaconDB :: "'st BeaconDB"
  stateSummaryCache :: StateSummaryCache
  splitInfo :: splitInfo

record 'st loaders =
  loadColdStateByRoot :: "'st State \<Rightarrow> root \<Rightarrow> (error + 'st option) \<times> 'st State"
  loadHotStateByRoot :: "'st State \<Rightarrow> root \<Rightarrow> (error + 'st option) \<times> 'st State"
  loadColdStateBySlot :: "'st State \<Rightarrow> 64 word \<Rightarrow> (error + 'st option) \<times> 'st State"
  loadHotStateBySlot :: "'st State \<Rightarrow> 64 word \<Rightarrow> (error + 'st option) \<times> 'st State"

subsection \<open>getter.go\<close>

text \<open>
  \<^verbatim>\<open>recoverStateSummary\<close> (lines 79-92). Dereferencing \<^verbatim>\<open>b.Block.Slot\<close> on a nil block
  panics; the panic is the \<open>NilPointerDereference\<close> branch.
\<close>

definition recoverStateSummary ::
  "'st State \<Rightarrow> root \<Rightarrow> (error + StateSummary) \<times> 'st State" where
  "recoverStateSummary s blockRoot =
     (if db_HasBlock (beaconDB s) blockRoot then
        (case db_Block (beaconDB s) blockRoot of
           Inl err \<Rightarrow> (Inl err, s)
         | Inr None \<Rightarrow> (Inl NilPointerDereference, s)
         | Inr (Some b) \<Rightarrow>
             (let summary = \<lparr>summary_Slot = block_Slot (Block b), summary_Root = blockRoot\<rparr> in
              case db_SaveStateSummary (beaconDB s) summary of
                Inl err \<Rightarrow> (Inl err, s)
              | Inr db' \<Rightarrow> (Inr summary, s\<lparr>beaconDB := db'\<rparr>)))
      else (Inl errUnknownStateSummary, s))"

text \<open>\<^verbatim>\<open>stateSummary\<close> (lines 61-76).\<close>

definition stateSummary ::
  "'st State \<Rightarrow> root \<Rightarrow> (error + StateSummary) \<times> 'st State" where
  "stateSummary s blockRoot =
     (case (if cache_Has (stateSummaryCache s) blockRoot
            then Inr (cache_Get (stateSummaryCache s) blockRoot)
            else db_StateSummary (beaconDB s) blockRoot) of
        Inl err \<Rightarrow> (Inl err, s)
      | Inr None \<Rightarrow> recoverStateSummary s blockRoot
      | Inr (Some summary) \<Rightarrow> (Inr summary, s))"

text \<open>\<^verbatim>\<open>StateByRoot\<close> (lines 16-35).\<close>

definition StateByRoot ::
  "'st loaders \<Rightarrow> 'st State \<Rightarrow> root \<Rightarrow> (error + 'st option) \<times> 'st State" where
  "StateByRoot L s blockRoot =
     (if blockRoot = ZeroHash then (db_State (beaconDB s) blockRoot, s)
      else
        (case stateSummary s blockRoot of
           (Inl err, s') \<Rightarrow> (Inl (Wrap err ''could not get state summary''), s')
         | (Inr summary, s') \<Rightarrow>
             if summary_Slot summary < split_slot (splitInfo s')
             then loadColdStateByRoot L s' blockRoot
             else loadHotStateByRoot L s' blockRoot))"

text \<open>\<^verbatim>\<open>StateBySlot\<close> (lines 42-51).\<close>

definition StateBySlot ::
  "'st loaders \<Rightarrow> 'st State \<Rightarrow> 64 word \<Rightarrow> (error + 'st option) \<times> 'st State" where
  "StateBySlot L s slot =
     (if slot < split_slot (splitInfo s)
      then loadColdStateBySlot L s slot
      else loadHotStateBySlot L s slot)"

text \<open>
  \<^verbatim>\<open>StateSummaryExists\<close> (lines 55-57). It returns the service with its answer, so that
  what it leaves behind can be compared with what it found.
\<close>

definition StateSummaryExists :: "'st State \<Rightarrow> root \<Rightarrow> bool \<times> 'st State" where
  "StateSummaryExists s blockRoot =
     (db_HasStateSummary (beaconDB s) blockRoot \<or> cache_Has (stateSummaryCache s) blockRoot, s)"

subsection \<open>A service to run the getters on\<close>

text \<open>
  Four roots, a store holding the genesis state, a summary for \<open>rootA\<close> (slot 3) and a
  block for \<open>rootB\<close> (slot 42), a cache holding a summary for \<open>rootC\<close> (slot 9), the
  split point at slot 5, and loaders that answer with the name of the path taken.
  Nothing is known about \<open>rootD\<close>.
\<close>

definition rootA :: root where "rootA = replicate 32 1"
definition rootB :: root where "rootB = replicate 32 2"
definition rootC :: root where "rootC = replicate 32 3"
definition rootD :: root where "rootD = replicate 32 4"

definition tagging_loaders :: "string loaders" where
  "tagging_loaders =
     \<lparr>loadColdStateByRoot = (\<lambda>s r. (Inr (Some ''cold, by root''), s)),
      loadHotStateByRoot = (\<lambda>s r. (Inr (Some ''hot, by root''), s)),
      loadColdStateBySlot = (\<lambda>s n. (Inr (Some ''cold, by slot''), s)),
      loadHotStateBySlot = (\<lambda>s n. (Inr (Some ''hot, by slot''), s))\<rparr>"

definition sample_db :: "string BeaconDB" where
  "sample_db =
     \<lparr>db_states = [ZeroHash \<mapsto> ''genesis''],
      db_summaries = [rootA \<mapsto> \<lparr>summary_Slot = 3, summary_Root = rootA\<rparr>],
      db_blocks =
        [rootB \<mapsto> \<lparr>Block = \<lparr>block_Slot = 42, block_ParentRoot = rootA, block_Body = []\<rparr>,
                    Signature = []\<rparr>],
      db_fault = (\<lambda>c r. None)\<rparr>"

definition sample_service :: "string State" where
  "sample_service =
     \<lparr>beaconDB = sample_db,
      stateSummaryCache = [rootC \<mapsto> \<lparr>summary_Slot = 9, summary_Root = rootC\<rparr>],
      splitInfo = \<lparr>split_slot = 5, split_root = rootA\<rparr>\<rparr>"

section \<open>Package encoder: ssz.go\<close>

subsection \<open>Libraries, writers and readers\<close>

text \<open>
  The SSZ and snappy libraries are other projects' code, so the encoder takes them as a
  parameter \<open>lib\<close>:
  \<^item> \<open>ssz_Marshal\<close>, \<open>ssz_Unmarshal\<close>: \<^verbatim>\<open>ssz.Marshal\<close> and \<^verbatim>\<open>ssz.Unmarshal\<close> into a target of the
    message type \<open>'m\<close>;
  \<^item> \<open>snappy_Encode\<close>, \<open>snappy_MaxEncodedLen\<close>: the block compressor and its size bound;
  \<^item> \<open>snappy_stream b\<close>: the bytes a \<^verbatim>\<open>snappy.NewBufferedWriter(w)\<close> hands to \<open>w\<close> for one
    \<^verbatim>\<open>Write(b)\<close> followed by \<^verbatim>\<open>Close()\<close> (the framed stream);
  \<^item> \<open>snappy_block bs\<close>: what a fresh \<^verbatim>\<open>snappy.NewReader\<close> over a reader holding \<open>bs\<close> has
    when its first \<^verbatim>\<open>Read\<close> returns: the error, or the decoded bytes of the first data chunk,
    and the bytes left in the reader underneath.
  A message \<^verbatim>\<open>msg interface{}\<close> is an \<open>'m option\<close>, \<^verbatim>\<open>nil\<close> being \<open>None\<close>.
\<close>

record 'm codec_lib =
  ssz_Marshal :: "'m \<Rightarrow> error + byte list"
  ssz_Unmarshal :: "byte list \<Rightarrow> error + 'm"
  snappy_Encode :: "byte list \<Rightarrow> byte list"
  snappy_MaxEncodedLen :: "int \<Rightarrow> int"
  snappy_stream :: "byte list \<Rightarrow> byte list"
  snappy_block :: "byte list \<Rightarrow> (error + byte list) \<times> byte list"

text \<open>
  An \<^verbatim>\<open>io.Writer\<close>: the bytes it has accepted, and the error it answers every \<^verbatim>\<open>Write\<close>
  with once it is broken (a closed stream). \<^verbatim>\<open>Write\<close> returns the count and the error.
\<close>

record writer =
  sink :: "byte list"
  werr :: "error option"

definition Write :: "writer \<Rightarrow> byte list \<Rightarrow> (int \<times> error option) \<times> writer" where
  "Write w p =
     (case werr w of
        Some err \<Rightarrow> ((0, Some err), w)
      | None \<Rightarrow> ((int (length p), None), w\<lparr>sink := sink w @ p\<rparr>))"

text \<open>
  An \<^verbatim>\<open>io.Reader\<close> is the bytes it still holds, read as a \<^verbatim>\<open>bytes.Buffer\<close> is: \<^verbatim>\<open>Read\<close> into
  a buffer of \<open>n\<close> bytes returns up to \<open>n\<close> of them, and \<^verbatim>\<open>io.EOF\<close> when none are left.
  The second function is \<^verbatim>\<open>Read\<close> on \<^verbatim>\<open>snappy.NewReader(r)\<close>: it copies as much of the decoded
  chunk as the buffer holds.
\<close>

definition Read :: "byte list \<Rightarrow> nat \<Rightarrow> (error + byte list) \<times> byte list" where
  "Read r n =
     (if r = [] then (if n = 0 then (Inr [], r) else (Inl EOF, r))
      else (Inr (take n r), drop n r))"

definition snappy_Read ::
  "'m codec_lib \<Rightarrow> byte list \<Rightarrow> nat \<Rightarrow> (error + byte list) \<times> byte list" where
  "snappy_Read lib r n =
     (case snappy_block lib r of
        (Inl err, r') \<Rightarrow> (Inl err, r')
      | (Inr decoded, r') \<Rightarrow> (Inr (take n decoded), r'))"

text \<open>
  \<^verbatim>\<open>proto.EncodeVarint\<close>: the protocol-buffers varint of a \<^verbatim>\<open>uint64\<close>, seven bits a byte,
  low bits first, the top bit of a byte saying that another follows.
\<close>

function EncodeVarint :: "64 word \<Rightarrow> byte list" where
  "EncodeVarint x =
     (if x > 127 then (0x80 OR ucast (x AND 0x7F)) # EncodeVarint (drop_bit 7 x)
      else [ucast x])"
  by pat_completeness auto
termination
proof (relation "measure unat")
  show "wf (measure unat)"
    by simp
next
  fix x :: "64 word"
  assume "127 < x"
  then have "0 < unat x"
    by (simp add: word_less_nat_alt)
  then have "unat x div 2 ^ 7 < unat x"
    by simp
  then show "(drop_bit 7 x, x) \<in> measure unat"
    by (simp add: drop_bit_eq_div unat_div)
qed

declare EncodeVarint.simps [simp del]

fun DecodeVarint :: "byte list \<Rightarrow> 64 word" where
  "DecodeVarint [] = 0"
| "DecodeVarint (x # xs) = ucast (x AND 0x7F) OR push_bit 7 (DecodeVarint xs)"

text \<open>
  Modelled from the spec: \<^verbatim>\<open>readVarint\<close> lives in varint.go, which is not among the
  sources. The spec (section 6) frames a message as the varint of a byte length followed
  by the payload; \<^verbatim>\<open>readVarint\<close> takes that varint off the front of the reader, a byte at
  a time up to the first byte without the continuation bit, and gives up after the ten
  bytes a 64-bit value can take.
\<close>

fun readVarint_bytes :: "nat \<Rightarrow> byte list \<Rightarrow> (error + byte list) \<times> byte list" where
  "readVarint_bytes 0 r = (Inl errExcessMaxLength, r)"
| "readVarint_bytes (Suc k) r =
     (case r of
        [] \<Rightarrow> (Inl EOF, r)
      | x # r' \<Rightarrow>
          if x AND 0x80 = 0 then (Inr [x], r')
          else (case readVarint_bytes k r' of
                  (Inl err, r'') \<Rightarrow> (Inl err, r'')
                | (Inr xs, r'') \<Rightarrow> (Inr (x # xs), r'')))"

definition readVarint :: "byte list \<Rightarrow> (error + 64 word) \<times> byte list" where
  "readVarint r =
     (case readVarint_bytes 10 r of
        (Inl err, r') \<Rightarrow> (Inl err, r')
      | (Inr xs, r') \<Rightarrow> (Inr (DecodeVarint xs), r'))"

subsection \<open>ssz.go\<close>

definition MaxChunkSize :: "64 word" where
  "MaxChunkSize = push_bit 20 1"

record SszNetworkEncoder =
  UseSnappyCompression :: bool

definition doEncode :: "'m codec_lib \<Rightarrow> SszNetworkEncoder \<Rightarrow> 'm \<Rightarrow> error + byte list" where
  "doEncode lib e msg = ssz_Marshal lib msg"

text \<open>
  \<^verbatim>\<open>writeSnappyBuffer\<close> (lines 182-190). The buffered writer keeps up to 65536 bytes and
  flushes them in the deferred \<^verbatim>\<open>Close\<close>, whose error is only logged: on a broken writer
  a \<^verbatim>\<open>Write\<close> that fits the buffer still reports success, and a longer one, written through,
  reports the writer's error.
\<close>

definition writeSnappyBuffer ::
  "'m codec_lib \<Rightarrow> writer \<Rightarrow> byte list \<Rightarrow> (int \<times> error option) \<times> writer" where
  "writeSnappyBuffer lib w b =
     (case werr w of
        None \<Rightarrow> ((int (length b), None), w\<lparr>sink := sink w @ snappy_stream lib b\<rparr>)
      | Some err \<Rightarrow>
          if length b > 65536 then ((0, Some err), w) else ((int (length b), None), w))"

text \<open>\<^verbatim>\<open>Encode\<close> (lines 30-42).\<close>

definition Encode ::
  "'m codec_lib \<Rightarrow> SszNetworkEncoder \<Rightarrow> writer \<Rightarrow> 'm option \<Rightarrow> (int \<times> error option) \<times> writer"
  where
  "Encode lib e w msg =
     (case msg of
        None \<Rightarrow> ((0, None), w)
      | Some m \<Rightarrow>
          (case doEncode lib e m of
             Inl err \<Rightarrow> ((0, Some err), w)
           | Inr b \<Rightarrow>
               if UseSnappyCompression e then writeSnappyBuffer lib w b else Write w b))"

text \<open>\<^verbatim>\<open>EncodeGossip\<close> (lines 45-57).\<close>

definition EncodeGossip ::
  "'m codec_lib \<Rightarrow> SszNetworkEncoder \<Rightarrow> writer \<Rightarrow> 'm option \<Rightarrow> (int \<times> error option) \<times> writer"
  where
  "EncodeGossip lib e w msg =
     (case msg of
        None \<Rightarrow> ((0, None), w)
      | Some m \<Rightarrow>
          (case doEncode lib e m of
             Inl err \<Rightarrow> ((0, Some err), w)
           | Inr b \<Rightarrow> Write w (if UseSnappyCompression e then snappy_Encode lib b else b)))"

text \<open>\<^verbatim>\<open>EncodeWithLength\<close> (lines 61-78).\<close>

definition EncodeWithLength ::
  "'m codec_lib \<Rightarrow> SszNetworkEncoder \<Rightarrow> writer \<Rightarrow> 'm option \<Rightarrow> (int \<times> error option) \<times> writer"
  where
  "EncodeWithLength lib e w msg =
     (case msg of
        None \<Rightarrow> ((0, None), w)
      | Some m \<Rightarrow>
          (case doEncode lib e m of
             Inl err \<Rightarrow> ((0, Some err), w)
           | Inr b \<Rightarrow>
               (case Write w (EncodeVarint (of_nat (length b))) of
                  ((_, Some err), w') \<Rightarrow> ((0, Some err), w')
                | ((_, None), w') \<Rightarrow>
                    if UseSnappyCompression e then writeSnappyBuffer lib w' b else Write w' b)))"

text \<open>\<^verbatim>\<open>EncodeWithMaxLength\<close> (lines 82-102).\<close>

definition EncodeWithMaxLength ::
  "'m codec_lib \<Rightarrow> SszNetworkEncoder \<Rightarrow> writer \<Rightarrow> 'm option \<Rightarrow> 64 word
     \<Rightarrow> (int \<times> error option) \<times> writer" where
  "EncodeWithMaxLength lib e w msg maxSize =
     (case msg of
        None \<Rightarrow> ((0, None), w)
      | Some m \<Rightarrow>
          (case doEncode lib e m of
             Inl err \<Rightarrow> ((0, Some err), w)
           | Inr b \<Rightarrow>
               if (of_nat (length b) :: 64 word) > maxSize
               then ((0, Some (EncodedSizeExceedsMax (length b) maxSize)), w)
               else
                 (case Write w (EncodeVarint (of_nat (length b))) of
                    ((_, Some err), w') \<Rightarrow> ((0, Some err), w')
                  | ((_, None), w') \<Rightarrow>
                      if UseSnappyCompression e then writeSnappyBuffer lib w' b
                      else Write w' b)))"

definition doDecode :: "'m codec_lib \<Rightarrow> SszNetworkEncoder \<Rightarrow> byte list \<Rightarrow> error + 'm" where
  "doDecode lib e b = ssz_Unmarshal lib b"

text \<open>
  \<^verbatim>\<open>Decode\<close> (lines 109-121). The value it returns is the error, or the message left in
  \<^verbatim>\<open>to\<close>. With compression the reader is \<^verbatim>\<open>snappy.NewReader(bytes.NewBuffer(b))\<close>, the
  buffer \<^verbatim>\<open>newObj\<close> has \<^verbatim>\<open>len(b)\<close> bytes, and \<^verbatim>\<open>newObj[:numOfBytes]\<close> is what the one
  \<^verbatim>\<open>Read\<close> put there.
\<close>

definition Decode :: "'m codec_lib \<Rightarrow> SszNetworkEncoder \<Rightarrow> byte list \<Rightarrow> error + 'm" where
  "Decode lib e b =
     (if UseSnappyCompression e then
        (case snappy_Read lib b (length b) of
           (Inl err, _) \<Rightarrow> Inl err
         | (Inr newObj, _) \<Rightarrow> doDecode lib e newObj)
      else doDecode lib e b)"

text \<open>\<^verbatim>\<open>MaxLength\<close> (lines 174-179).\<close>

definition MaxLength :: "'m codec_lib \<Rightarrow> SszNetworkEncoder \<Rightarrow> int \<Rightarrow> int" where
  "MaxLength lib e n = (if UseSnappyCompression e then snappy_MaxEncodedLen lib n else n)"

text \<open>
  \<^verbatim>\<open>DecodeWithMaxLength\<close> (lines 142-162). Besides the error or the decoded message it
  returns what is left in the reader and the length of the payload buffer \<^verbatim>\<open>b\<close> it
  allocated at line 156 (\<open>None\<close> when it never got there). \<^verbatim>\<open>int(msgLen)\<close> reads the 64
  bits as signed; \<^verbatim>\<open>make\<close> panics on a negative length.
\<close>

record 'm decoding =
  dec_result :: "error + 'm"
  dec_reader :: "byte list"
  dec_buffer :: "int option"

definition DecodeWithMaxLength ::
  "'m codec_lib \<Rightarrow> SszNetworkEncoder \<Rightarrow> byte list \<Rightarrow> 64 word \<Rightarrow> 'm decoding" where
  "DecodeWithMaxLength lib e r maxSize =
     (if maxSize > MaxChunkSize then
        \<lparr>dec_result = Inl (MaxSizeExceedsChunkSize maxSize MaxChunkSize),
         dec_reader = r, dec_buffer = None\<rparr>
      else
        (case readVarint r of
           (Inl err, r') \<Rightarrow> \<lparr>dec_result = Inl err, dec_reader = r', dec_buffer = None\<rparr>
         | (Inr msgLen, r') \<Rightarrow>
             if msgLen > maxSize then
               \<lparr>dec_result = Inl (DecodedSizeExceedsMax msgLen maxSize),
                dec_reader = r', dec_buffer = None\<rparr>
             else
               (let n = MaxLength lib e (sint msgLen) in
                if n < 0 then
                  \<lparr>dec_result = Inl NegativeSliceLength, dec_reader = r', dec_buffer = None\<rparr>
                else
                  (case (if UseSnappyCompression e then snappy_Read lib r' (nat n)
                         else Read r' (nat n)) of
                     (Inl err, r'') \<Rightarrow>
                       \<lparr>dec_result = Inl err, dec_reader = r'', dec_buffer = Some n\<rparr>
                   | (Inr b, r'') \<Rightarrow>
                       \<lparr>dec_result = doDecode lib e b, dec_reader = r'',
                        dec_buffer = Some n\<rparr>))))"

text \<open>\<^verbatim>\<open>DecodeWithLength\<close> (lines 136-138).\<close>

definition DecodeWithLength ::
  "'m codec_lib \<Rightarrow> SszNetworkEncoder \<Rightarrow> byte list \<Rightarrow> 'm decoding" where
  "DecodeWithLength lib e r = DecodeWithMaxLength lib e r MaxChunkSize"

subsection \<open>Libraries to run the encoder on\<close>

text \<open>
  Messages that are byte strings, which SSZ serialises as they are, and the snappy
  framing of a short input: the stream identifier, then one chunk holding the input as
  it is behind its type byte \<open>0x01\<close>, its three-byte length and its masked CRC-32C. The
  library's writer emits exactly this for an input of 1 to 16 bytes, where its block
  compressor (\<open>literal_block\<close>) can only emit a literal, longer than the input.
\<close>

definition magicChunk :: "byte list" where
  "magicChunk = [0xff, 0x06, 0x00, 0x00, 0x73, 0x4e, 0x61, 0x50, 0x70, 0x59]"

definition crc32c_step :: "32 word \<Rightarrow> 32 word" where
  "crc32c_step c = (if c AND 1 = 1 then drop_bit 1 c XOR 0x82F63B78 else drop_bit 1 c)"

definition crc32c_byte :: "32 word \<Rightarrow> byte \<Rightarrow> 32 word" where
  "crc32c_byte c x =
     crc32c_step (crc32c_step (crc32c_step (crc32c_step
       (crc32c_step (crc32c_step (crc32c_step (crc32c_step (c XOR ucast x))))))))"

definition crc32c :: "byte list \<Rightarrow> 32 word" where
  "crc32c bs = NOT (foldl crc32c_byte 0xFFFFFFFF bs)"

definition snappy_crc :: "byte list \<Rightarrow> 32 word" where
  "snappy_crc b = (let c = crc32c b in (drop_bit 15 c OR push_bit 17 c) + 0xa282ead8)"

definition le32 :: "32 word \<Rightarrow> byte list" where
  "le32 c = [ucast c, ucast (drop_bit 8 c), ucast (drop_bit 16 c), ucast (drop_bit 24 c)]"

definition stored_stream :: "byte list \<Rightarrow> byte list" where
  "stored_stream b =
     (if b = [] then []
      else magicChunk @ 0x01 # take 3 (le32 (of_nat (4 + length b))) @ le32 (snappy_crc b) @ b)"

definition stored_block :: "byte list \<Rightarrow> (error + byte list) \<times> byte list" where
  "stored_block bs =
     (if bs = [] then (Inl EOF, bs)
      else if take 11 bs = magicChunk @ [0x01] \<and> 18 \<le> length bs then
        (let n = unat (bs ! 11) + 256 * unat (bs ! 12) + 65536 * unat (bs ! 13) - 4;
             body = drop 18 bs
         in if n \<le> length body \<and> le32 (snappy_crc (take n body)) = take 4 (drop 14 bs)
            then (Inr (take n body), drop n body)
            else (Inl (LibraryError ''snappy: corrupt input''), []))
      else (Inl (LibraryError ''snappy: corrupt input''), []))"

definition emitLiteral :: "byte list \<Rightarrow> byte list" where
  "emitLiteral lit =
     (let n = length lit - 1 in
      (if n < 60 then [push_bit 2 (of_nat n)]
       else if n < 256 then [0xF0, of_nat n]
       else [0xF4, of_nat n, of_nat (n div 256)]) @ lit)"

definition literal_block :: "byte list \<Rightarrow> byte list" where
  "literal_block b = EncodeVarint (of_nat (length b)) @ (if b = [] then [] else emitLiteral b)"

definition MaxEncodedLen :: "int \<Rightarrow> int" where
  "MaxEncodedLen n =
     (if n < 0 then - 1
      else if 0xffffffff < n then - 1
      else if 0xffffffff < 32 + n + n div 6 then - 1
      else 32 + n + n div 6)"

definition small_lib :: "byte list codec_lib" where
  "small_lib =
     \<lparr>ssz_Marshal = Inr,
      ssz_Unmarshal = (\<lambda>b. if b = [] then Inl (LibraryError ''no data to unmarshal'') else Inr b),
      snappy_Encode = literal_block,
      snappy_MaxEncodedLen = MaxEncodedLen,
      snappy_stream = stored_stream,
      snappy_block = stored_block\<rparr>"

definition snappy_on :: SszNetworkEncoder where
  "snappy_on = \<lparr>UseSnappyCompression = True\<rparr>"

definition snappy_off :: SszNetworkEncoder where
  "snappy_off = \<lparr>UseSnappyCompression = False\<rparr>"

definition empty_writer :: writer where
  "empty_writer = \<lparr>sink = [], werr = None\<rparr>"

text \<open>
  The library's block compressor on a run of 17 to 65536 equal bytes: the first byte as
  a literal, the rest as copies at offset 1 (\<open>emitCopy\<close>). The framed writer keeps the
  block as a compressed chunk (type byte \<open>0x00\<close>) when it is at least an eighth shorter
  than the input, as it is here. \<open>block_decode\<close> reads such a block back: literals of up
  to 60 bytes and copies with one- or two-byte offsets. \<open>run_lib\<close> is \<open>small_lib\<close> with
  this writer and reader.
\<close>

function emitCopy :: "nat \<Rightarrow> nat \<Rightarrow> byte list" where
  "emitCopy offset n =
     (if 68 \<le> n then [0xFE, of_nat offset, of_nat (offset div 256)] @ emitCopy offset (n - 64)
      else if 64 < n then [0xEE, of_nat offset, of_nat (offset div 256)] @ emitCopy offset (n - 60)
      else if 12 \<le> n \<or> 2048 \<le> offset
        then [push_bit 2 (of_nat (n - 1)) OR 2, of_nat offset, of_nat (offset div 256)]
      else [push_bit 5 (of_nat (offset div 256)) OR push_bit 2 (of_nat (n - 4)) OR 1,
            of_nat offset])"
  by pat_completeness auto
termination
  by (relation "measure snd") auto

declare emitCopy.simps [simp del]

definition run_block :: "byte list \<Rightarrow> byte list" where
  "run_block b =
     EncodeVarint (of_nat (length b)) @ emitLiteral [hd b] @ emitCopy 1 (length b - 1)"

definition run_stream :: "byte list \<Rightarrow> byte list" where
  "run_stream b =
     (if 17 \<le> length b \<and> length b \<le> 65536 \<and> b = replicate (length b) (hd b)
         \<and> length (run_block b) < length b - length b div 8
      then magicChunk @ 0x00 # take 3 (le32 (of_nat (4 + length (run_block b))))
             @ le32 (snappy_crc b) @ run_block b
      else stored_stream b)"

fun copy_back :: "nat \<Rightarrow> nat \<Rightarrow> byte list \<Rightarrow> byte list" where
  "copy_back offset 0 dst = dst"
| "copy_back offset (Suc n) dst = copy_back offset n (dst @ [dst ! (length dst - offset)])"

fun block_ops :: "nat \<Rightarrow> byte list \<Rightarrow> byte list \<Rightarrow> error + byte list" where
  "block_ops 0 src dst =
     (if src = [] then Inr dst else Inl (LibraryError ''snappy: corrupt input''))"
| "block_ops (Suc k) src dst =
     (case src of
        [] \<Rightarrow> Inr dst
      | tag # rest \<Rightarrow>
          if tag AND 3 = 0 then
            (let n = unat (drop_bit 2 tag) + 1 in
             if 60 < n then Inl (LibraryError ''snappy: unsupported input'')
             else if length rest < n then Inl (LibraryError ''snappy: corrupt input'')
             else block_ops k (drop n rest) (dst @ take n rest))
          else if tag AND 3 = 1 then
            (case rest of
               [] \<Rightarrow> Inl (LibraryError ''snappy: corrupt input'')
             | lo # rest' \<Rightarrow>
                 (let n = 4 + unat (drop_bit 2 tag AND 7);
                      offset = 256 * unat (drop_bit 5 tag) + unat lo
                  in if offset = 0 then Inl (LibraryError ''snappy: corrupt input'')
                     else if length dst < offset then Inl (LibraryError ''snappy: corrupt input'')
                     else block_ops k rest' (copy_back offset n dst)))
          else if tag AND 3 = 2 then
            (case rest of
               lo # hi # rest' \<Rightarrow>
                 (let n = unat (drop_bit 2 tag) + 1;
                      offset = unat lo + 256 * unat hi
                  in if offset = 0 then Inl (LibraryError ''snappy: corrupt input'')
                     else if length dst < offset then Inl (LibraryError ''snappy: corrupt input'')
                     else block_ops k rest' (copy_back offset n dst))
             | _ \<Rightarrow> Inl (LibraryError ''snappy: corrupt input''))
          else Inl (LibraryError ''snappy: unsupported input''))"

definition block_decode :: "byte list \<Rightarrow> error + byte list" where
  "block_decode c =
     (case readVarint_bytes 10 c of
        (Inl err, _) \<Rightarrow> Inl (LibraryError ''snappy: corrupt input'')
      | (Inr xs, ops) \<Rightarrow>
          (case block_ops (length ops) ops [] of
             Inl err \<Rightarrow> Inl err
           | Inr d \<Rightarrow>
               if length d = unat (DecodeVarint xs) then Inr d
               else Inl (LibraryError ''snappy: corrupt input'')))"

definition run_frame :: "byte list \<Rightarrow> (error + byte list) \<times> byte list" where
  "run_frame bs =
     (if take 11 bs = magicChunk @ [0x00] \<and> 18 \<le> length bs then
        (let n = unat (bs ! 11) + 256 * unat (bs ! 12) + 65536 * unat (bs ! 13) - 4;
             body = drop 18 bs
         in if n \<le> length body then
              (case block_decode (take n body) of
                 Inl err \<Rightarrow> (Inl err, [])
               | Inr d \<Rightarrow>
                   if le32 (snappy_crc d) = take 4 (drop 14 bs) then (Inr d, drop n body)
                   else (Inl (LibraryError ''snappy: corrupt input''), []))
            else (Inl (LibraryError ''snappy: corrupt input''), []))
      else stored_block bs)"

definition run_lib :: "byte list codec_lib" where
  "run_lib = small_lib\<lparr>snappy_stream := run_stream, snappy_block := run_frame\<rparr>"

section \<open>Properties of the getters\<close>

lemmas sample_defs = rootA_def rootB_def rootC_def rootD_def ZeroHash_def tagging_loaders_def
  sample_db_def sample_service_def

lemmas getter_defs = db_State_def db_HasStateSummary_def db_StateSummary_def db_HasBlock_def
  db_Block_def db_SaveStateSummary_def cache_Has_def cache_Get_def recoverStateSummary_def
  stateSummary_def

text \<open>Resolving a summary touches the store only: the cache and the split point stay.\<close>

lemma stateSummary_frame:
  assumes "stateSummary s r = (x, s')"
  shows "splitInfo s' = splitInfo s" and "stateSummaryCache s' = stateSummaryCache s"
  using assms
  by (auto simp: stateSummary_def recoverStateSummary_def Let_def
      split: if_splits sum.splits option.splits)

lemma sample_summaries:
  "stateSummary sample_service rootA
     = (Inr \<lparr>summary_Slot = 3, summary_Root = rootA\<rparr>, sample_service)"
  "stateSummary sample_service rootC
     = (Inr \<lparr>summary_Slot = 9, summary_Root = rootC\<rparr>, sample_service)"
  by (simp_all add: getter_defs sample_defs)

text \<open>
  C1. \<^verbatim>\<open>StateByRoot\<close> resolves the summary of a block root at line 25, which it reaches
  for every root but the zero hash (lines 21-23 answer that one first, with no summary
  resolved). On the slot of the summary it resolved it routes: strictly below the slot
  of the split point it returns what \<^verbatim>\<open>loadColdStateByRoot\<close> returns for that root, at
  or above it what \<^verbatim>\<open>loadHotStateByRoot\<close> returns. The loader runs on the service as
  the resolution left it.
\<close>

theorem StateByRoot_tier_routing:
  assumes "blockRoot \<noteq> ZeroHash"
    and "stateSummary s blockRoot = (Inr summary, s')"
  shows "(summary_Slot summary < split_slot (splitInfo s)
            \<longrightarrow> StateByRoot L s blockRoot = loadColdStateByRoot L s' blockRoot)
       \<and> (split_slot (splitInfo s) \<le> summary_Slot summary
            \<longrightarrow> StateByRoot L s blockRoot = loadHotStateByRoot L s' blockRoot)"
proof -
  have "splitInfo s' = splitInfo s"
    using assms(2) by (rule stateSummary_frame)
  then show ?thesis
    using assms by (auto simp: StateByRoot_def)
qed

text \<open>
  With the split point at slot 5: \<open>rootA\<close> (slot 3) goes to the cold loader, \<open>rootC\<close>
  (slot 9) to the hot one.
\<close>

theorem StateByRoot_tier_routing_witness:
  "rootA \<noteq> ZeroHash \<and> rootC \<noteq> ZeroHash
   \<and> StateByRoot tagging_loaders sample_service rootA
       = (Inr (Some ''cold, by root''), sample_service)
   \<and> StateByRoot tagging_loaders sample_service rootC
       = (Inr (Some ''hot, by root''), sample_service)"
proof -
  have a: "rootA \<noteq> ZeroHash" and c: "rootC \<noteq> ZeroHash"
    by (simp_all add: sample_defs)
  have "StateByRoot tagging_loaders sample_service rootA
          = loadColdStateByRoot tagging_loaders sample_service rootA"
    using StateByRoot_tier_routing [OF a sample_summaries(1), of tagging_loaders]
    by (simp add: sample_service_def)
  moreover have "StateByRoot tagging_loaders sample_service rootC
          = loadHotStateByRoot tagging_loaders sample_service rootC"
    using StateByRoot_tier_routing [OF c sample_summaries(2), of tagging_loaders]
    by (simp add: sample_service_def)
  ultimately show ?thesis
    using a c by (simp add: tagging_loaders_def)
qed

text \<open>
  C2. For the zero hash \<^verbatim>\<open>StateByRoot\<close> returns what the store's \<^verbatim>\<open>State\<close> returns for
  that root and leaves the service as it was. The answer is the same whatever the summary
  cache, the split point, the loaders and the store's summaries and blocks are: none of
  them is consulted.
\<close>

theorem StateByRoot_genesis_shortcut:
  "StateByRoot L s ZeroHash = (db_State (beaconDB s) ZeroHash, s)
   \<and> fst (StateByRoot L'
            (s\<lparr>stateSummaryCache := cache', splitInfo := split',
               beaconDB := (beaconDB s)\<lparr>db_summaries := summaries', db_blocks := blocks'\<rparr>\<rparr>)
            ZeroHash)
       = fst (StateByRoot L s ZeroHash)"
  by (simp add: StateByRoot_def db_State_def split: option.splits)

theorem StateByRoot_genesis_shortcut_witness:
  "StateByRoot tagging_loaders sample_service ZeroHash = (Inr (Some ''genesis''), sample_service)"
  using StateByRoot_genesis_shortcut [of tagging_loaders sample_service]
  by (simp add: db_State_def sample_db_def sample_service_def)

text \<open>
  C3. \<^verbatim>\<open>stateSummary\<close> falls back in three steps. A summary in the cache is returned. With
  none in the cache, a summary the store returns is returned. With none in either, and a
  block for the root in the store, the summary made of the block's slot and the root is
  saved to the store and returned: the store then returns it for that root, and resolving
  the root again returns it whatever blocks the store holds by then, so it is not derived
  from the block a second time.
\<close>

theorem stateSummary_three_level_fallback:
  "(stateSummaryCache s r = Some sm \<longrightarrow> stateSummary s r = (Inr sm, s))
   \<and> (stateSummaryCache s r = None \<and> db_StateSummary (beaconDB s) r = Inr (Some sm)
        \<longrightarrow> stateSummary s r = (Inr sm, s))
   \<and> (stateSummaryCache s r = None \<and> db_StateSummary (beaconDB s) r = Inr None
        \<and> db_Block (beaconDB s) r = Inr (Some b)
        \<and> db_SaveStateSummary (beaconDB s)
             \<lparr>summary_Slot = block_Slot (Block b), summary_Root = r\<rparr> = Inr db'
        \<longrightarrow> stateSummary s r
              = (Inr \<lparr>summary_Slot = block_Slot (Block b), summary_Root = r\<rparr>,
                 s\<lparr>beaconDB := db'\<rparr>)
          \<and> db_StateSummary db' r
              = Inr (Some \<lparr>summary_Slot = block_Slot (Block b), summary_Root = r\<rparr>)
          \<and> (\<forall>blocks'.
                stateSummary (s\<lparr>beaconDB := db'\<lparr>db_blocks := blocks'\<rparr>\<rparr>) r
                  = (Inr \<lparr>summary_Slot = block_Slot (Block b), summary_Root = r\<rparr>,
                     s\<lparr>beaconDB := db'\<lparr>db_blocks := blocks'\<rparr>\<rparr>)))"
  by (auto simp: getter_defs Let_def split: option.splits sum.splits if_splits)

text \<open>
  \<open>rootC\<close> is answered from the cache, \<open>rootA\<close> from the store, and \<open>rootB\<close>, known only by
  its block at slot 42, gets the summary (42, \<open>rootB\<close>), which is in the store afterwards
  and is found again with every block deleted.
\<close>

theorem stateSummary_three_level_fallback_witness:
  "stateSummary sample_service rootC
     = (Inr \<lparr>summary_Slot = 9, summary_Root = rootC\<rparr>, sample_service)
   \<and> stateSummary sample_service rootA
     = (Inr \<lparr>summary_Slot = 3, summary_Root = rootA\<rparr>, sample_service)
   \<and> stateSummary sample_service rootB
     = (Inr \<lparr>summary_Slot = 42, summary_Root = rootB\<rparr>,
        sample_service\<lparr>beaconDB := sample_db\<lparr>db_summaries :=
          (db_summaries sample_db)(rootB \<mapsto> \<lparr>summary_Slot = 42, summary_Root = rootB\<rparr>)\<rparr>\<rparr>)
   \<and> stateSummary
        (sample_service\<lparr>beaconDB := sample_db\<lparr>db_summaries :=
           (db_summaries sample_db)(rootB \<mapsto> \<lparr>summary_Slot = 42, summary_Root = rootB\<rparr>),
           db_blocks := Map.empty\<rparr>\<rparr>) rootB
     = (Inr \<lparr>summary_Slot = 42, summary_Root = rootB\<rparr>,
        sample_service\<lparr>beaconDB := sample_db\<lparr>db_summaries :=
           (db_summaries sample_db)(rootB \<mapsto> \<lparr>summary_Slot = 42, summary_Root = rootB\<rparr>),
           db_blocks := Map.empty\<rparr>\<rparr>)"
proof -
  let ?blk = "\<lparr>Block = \<lparr>block_Slot = 42, block_ParentRoot = rootA, block_Body = []\<rparr>,
               Signature = []\<rparr>"
  let ?sm = "\<lparr>summary_Slot = 42, summary_Root = rootB\<rparr>"
  let ?db' = "sample_db\<lparr>db_summaries := (db_summaries sample_db)(rootB \<mapsto> ?sm)\<rparr>"
  have c: "stateSummaryCache sample_service rootC
             = Some \<lparr>summary_Slot = 9, summary_Root = rootC\<rparr>"
    by (simp add: sample_defs)
  have a: "stateSummaryCache sample_service rootA = None"
    "db_StateSummary (beaconDB sample_service) rootA
       = Inr (Some \<lparr>summary_Slot = 3, summary_Root = rootA\<rparr>)"
    by (simp_all add: getter_defs sample_defs)
  have b: "stateSummaryCache sample_service rootB = None"
    "db_StateSummary (beaconDB sample_service) rootB = Inr None"
    "db_Block (beaconDB sample_service) rootB = Inr (Some ?blk)"
    "db_SaveStateSummary (beaconDB sample_service)
       \<lparr>summary_Slot = block_Slot (Block ?blk), summary_Root = rootB\<rparr> = Inr ?db'"
    by (simp_all add: getter_defs sample_defs)
  have 1: "stateSummary sample_service rootC
     = (Inr \<lparr>summary_Slot = 9, summary_Root = rootC\<rparr>, sample_service)"
    using stateSummary_three_level_fallback
      [of sample_service rootC "\<lparr>summary_Slot = 9, summary_Root = rootC\<rparr>"] c
    by blast
  have 2: "stateSummary sample_service rootA
     = (Inr \<lparr>summary_Slot = 3, summary_Root = rootA\<rparr>, sample_service)"
    using stateSummary_three_level_fallback
      [of sample_service rootA "\<lparr>summary_Slot = 3, summary_Root = rootA\<rparr>"] a
    by blast
  have 3: "stateSummary sample_service rootB = (Inr ?sm, sample_service\<lparr>beaconDB := ?db'\<rparr>)
    \<and> (\<forall>blocks'. stateSummary (sample_service\<lparr>beaconDB := ?db'\<lparr>db_blocks := blocks'\<rparr>\<rparr>) rootB
          = (Inr ?sm, sample_service\<lparr>beaconDB := ?db'\<lparr>db_blocks := blocks'\<rparr>\<rparr>))"
    using stateSummary_three_level_fallback [of sample_service rootB _ ?blk ?db'] b
    by simp
  from 3 have 4: "stateSummary (sample_service\<lparr>beaconDB := ?db'\<lparr>db_blocks := Map.empty\<rparr>\<rparr>) rootB
          = (Inr ?sm, sample_service\<lparr>beaconDB := ?db'\<lparr>db_blocks := Map.empty\<rparr>\<rparr>)"
    by blast
  from 1 2 3 4 show ?thesis
    by simp
qed

text \<open>
  C4. For a root with no summary in the cache, none returned by the store and no block in
  the store, \<^verbatim>\<open>stateSummary\<close> fails with \<^verbatim>\<open>errUnknownStateSummary\<close> and changes nothing;
  \<^verbatim>\<open>StateByRoot\<close>, for such a root other than the zero hash, returns that error to its
  caller, wrapped with the message of line 27, and no state.
\<close>

theorem stateSummary_unknown_root:
  assumes "stateSummaryCache s r = None"
    and "db_StateSummary (beaconDB s) r = Inr None"
    and "db_blocks (beaconDB s) r = None"
  shows "stateSummary s r = (Inl errUnknownStateSummary, s)
       \<and> (r \<noteq> ZeroHash
            \<longrightarrow> StateByRoot L s r
                  = (Inl (Wrap errUnknownStateSummary ''could not get state summary''), s))"
proof -
  have "stateSummary s r = (Inl errUnknownStateSummary, s)"
    using assms
    by (simp add: stateSummary_def recoverStateSummary_def cache_Has_def db_HasBlock_def)
  then show ?thesis
    by (simp add: StateByRoot_def)
qed

theorem stateSummary_unknown_root_witness:
  "stateSummary sample_service rootD = (Inl errUnknownStateSummary, sample_service)
   \<and> StateByRoot tagging_loaders sample_service rootD
       = (Inl (Wrap errUnknownStateSummary ''could not get state summary''), sample_service)"
proof -
  have "stateSummaryCache sample_service rootD = None"
    and "db_StateSummary (beaconDB sample_service) rootD = Inr None"
    and "db_blocks (beaconDB sample_service) rootD = None"
    and "rootD \<noteq> ZeroHash"
    by (simp_all add: getter_defs sample_defs)
  then show ?thesis
    using stateSummary_unknown_root [of sample_service rootD tagging_loaders]
    by blast
qed

text \<open>
  C5. \<^verbatim>\<open>StateSummaryExists\<close> answers true exactly when the root has a summary in the cache
  or in the store, and leaves the whole service, cache and store included, as it was: it
  saves no derived summary.
\<close>

theorem StateSummaryExists_probe:
  "StateSummaryExists s r
     = (r \<in> dom (stateSummaryCache s) \<or> r \<in> dom (db_summaries (beaconDB s)), s)"
  by (auto simp: StateSummaryExists_def db_HasStateSummary_def cache_Has_def
      split: option.splits)

text \<open>
  \<open>rootB\<close> has a block and no summary: the probe says no and saves nothing, where
  \<^verbatim>\<open>stateSummary\<close> would have saved the derived summary.
\<close>

theorem StateSummaryExists_probe_witness:
  "StateSummaryExists sample_service rootA = (True, sample_service)
   \<and> StateSummaryExists sample_service rootC = (True, sample_service)
   \<and> StateSummaryExists sample_service rootB = (False, sample_service)"
  using StateSummaryExists_probe [of sample_service rootA]
    StateSummaryExists_probe [of sample_service rootC]
    StateSummaryExists_probe [of sample_service rootB]
  by (simp add: sample_defs)

text \<open>
  C6. \<^verbatim>\<open>StateBySlot\<close> decides on the slot it is given: strictly below the slot of the
  split point it returns what \<^verbatim>\<open>loadColdStateBySlot\<close> returns, otherwise what
  \<^verbatim>\<open>loadHotStateBySlot\<close> returns. The loader is handed the service untouched: no summary
  is looked up.
\<close>

theorem StateBySlot_tier_routing:
  "(slot < split_slot (splitInfo s)
      \<longrightarrow> StateBySlot L s slot = loadColdStateBySlot L s slot)
   \<and> (split_slot (splitInfo s) \<le> slot
      \<longrightarrow> StateBySlot L s slot = loadHotStateBySlot L s slot)"
  by (auto simp: StateBySlot_def)

theorem StateBySlot_tier_routing_witness:
  "StateBySlot tagging_loaders sample_service 4 = (Inr (Some ''cold, by slot''), sample_service)
   \<and> StateBySlot tagging_loaders sample_service 5 = (Inr (Some ''hot, by slot''), sample_service)"
proof -
  have "StateBySlot tagging_loaders sample_service 4
          = loadColdStateBySlot tagging_loaders sample_service 4"
    using StateBySlot_tier_routing [of 4 sample_service tagging_loaders]
    by (simp add: sample_service_def)
  moreover have "StateBySlot tagging_loaders sample_service 5
          = loadHotStateBySlot tagging_loaders sample_service 5"
    using StateBySlot_tier_routing [of 5 sample_service tagging_loaders]
    by (simp add: sample_service_def)
  ultimately show ?thesis
    by (simp add: tagging_loaders_def)
qed

section \<open>Properties of the encoder\<close>

lemmas lib_defs = small_lib_def stored_stream_def stored_block_def magicChunk_def le32_def
  snappy_crc_def crc32c_def crc32c_byte_def crc32c_step_def MaxEncodedLen_def
  snappy_on_def snappy_off_def empty_writer_def

lemma readVarint_bytes_numeral:
  "readVarint_bytes (numeral k) (x # r) =
     (if x AND 0x80 = 0 then (Inr [x], r)
      else (case readVarint_bytes (pred_numeral k) r of
              (Inl err, r') \<Rightarrow> (Inl err, r')
            | (Inr xs, r') \<Rightarrow> (Inr (x # xs), r')))"
  by (simp add: numeral_eq_Suc)

lemma small_stream:
  "snappy_stream small_lib [1]
     = [255, 6, 0, 0, 115, 78, 97, 80, 112, 89, 1, 5, 0, 0, 5, 43, 40, 67, 1]"
  by (simp add: lib_defs Let_def)

text \<open>
  A length within \<^verbatim>\<open>MaxChunkSize\<close> is the same number read as \<^verbatim>\<open>int\<close> or as
  \<^verbatim>\<open>uint64\<close>.
\<close>

lemma small_length_sint:
  fixes msgLen :: "64 word"
  assumes "msgLen \<le> maxSize" and "maxSize \<le> MaxChunkSize"
  shows "sint msgLen = uint msgLen" and "uint msgLen \<le> 2 ^ 20"
proof -
  have "msgLen \<le> MaxChunkSize"
    using assms by simp
  then show b: "uint msgLen \<le> 2 ^ 20"
    by (simp add: MaxChunkSize_def word_le_def)
  have "- (2 ^ 63) \<le> uint msgLen"
    by (rule order_trans [of _ 0]) simp_all
  moreover from b have "uint msgLen < 2 ^ 63"
    by simp
  ultimately have "signed_take_bit 63 (uint msgLen) = uint msgLen"
    by (rule signed_take_bit_int_eq_self)
  then show "sint msgLen = uint msgLen"
    by (simp add: sint_uint)
qed

text \<open>
  C7. \<^verbatim>\<open>DecodeWithMaxLength\<close> with a maximum above \<^verbatim>\<open>MaxChunkSize\<close> returns an error,
  reads nothing and allocates no payload buffer. When the varint at the front of the
  reader declares a length above the maximum it returns an error with no payload buffer
  allocated and nothing read past the varint. A payload buffer is allocated only when the
  maximum is within \<^verbatim>\<open>MaxChunkSize\<close> and the declared length within the maximum (its size
  is then \<^verbatim>\<open>MaxLength\<close> of a length of at most \<open>2 ^ 20\<close>), and a message is decoded only
  after that allocation.
\<close>

theorem DecodeWithMaxLength_size_bounds:
  "(MaxChunkSize < maxSize \<longrightarrow>
      DecodeWithMaxLength lib e r maxSize
        = \<lparr>dec_result = Inl (MaxSizeExceedsChunkSize maxSize MaxChunkSize),
           dec_reader = r, dec_buffer = None\<rparr>)
   \<and> (readVarint r = (Inr msgLen, r') \<and> maxSize < msgLen \<longrightarrow>
        DecodeWithMaxLength lib e r maxSize
          = (if MaxChunkSize < maxSize
             then \<lparr>dec_result = Inl (MaxSizeExceedsChunkSize maxSize MaxChunkSize),
                   dec_reader = r, dec_buffer = None\<rparr>
             else \<lparr>dec_result = Inl (DecodedSizeExceedsMax msgLen maxSize),
                   dec_reader = r', dec_buffer = None\<rparr>))
   \<and> (dec_buffer (DecodeWithMaxLength lib e r maxSize) = Some n \<longrightarrow>
        maxSize \<le> MaxChunkSize
        \<and> (\<exists>len r''. readVarint r = (Inr len, r'') \<and> len \<le> maxSize
              \<and> n = MaxLength lib e (uint len) \<and> uint len \<le> 2 ^ 20))
   \<and> (dec_result (DecodeWithMaxLength lib e r maxSize) = Inr m \<longrightarrow>
        dec_buffer (DecodeWithMaxLength lib e r maxSize) \<noteq> None)"
proof (intro conjI impI)
  assume "MaxChunkSize < maxSize"
  then show "DecodeWithMaxLength lib e r maxSize
        = \<lparr>dec_result = Inl (MaxSizeExceedsChunkSize maxSize MaxChunkSize),
           dec_reader = r, dec_buffer = None\<rparr>"
    by (simp add: DecodeWithMaxLength_def)
next
  assume "readVarint r = (Inr msgLen, r') \<and> maxSize < msgLen"
  then show "DecodeWithMaxLength lib e r maxSize
          = (if MaxChunkSize < maxSize
             then \<lparr>dec_result = Inl (MaxSizeExceedsChunkSize maxSize MaxChunkSize),
                   dec_reader = r, dec_buffer = None\<rparr>
             else \<lparr>dec_result = Inl (DecodedSizeExceedsMax msgLen maxSize),
                   dec_reader = r', dec_buffer = None\<rparr>)"
    by (simp add: DecodeWithMaxLength_def)
next
  assume a: "dec_buffer (DecodeWithMaxLength lib e r maxSize) = Some n"
  then show "maxSize \<le> MaxChunkSize"
    by (auto simp: DecodeWithMaxLength_def split: if_splits)
  with a obtain len r'' where v: "readVarint r = (Inr len, r'')"
    and l: "len \<le> maxSize" and n: "n = MaxLength lib e (sint len)"
    by (auto simp: DecodeWithMaxLength_def Let_def
        split: if_splits prod.splits sum.splits)
  from l \<open>maxSize \<le> MaxChunkSize\<close>
  have "sint len = uint len" and "uint len \<le> 2 ^ 20"
    by (rule small_length_sint)+
  with v l n
  show "\<exists>len r''. readVarint r = (Inr len, r'') \<and> len \<le> maxSize
              \<and> n = MaxLength lib e (uint len) \<and> uint len \<le> 2 ^ 20"
    by auto
next
  assume "dec_result (DecodeWithMaxLength lib e r maxSize) = Inr m"
  then show "dec_buffer (DecodeWithMaxLength lib e r maxSize) \<noteq> None"
    by (auto simp: DecodeWithMaxLength_def Let_def
        split: if_splits prod.splits sum.splits)
qed

text \<open>
  A reader holding the varint 3 and four more bytes: a maximum of 1048577 is refused
  outright, a maximum of 2 is refused after the varint, a maximum of 16 lets the three
  payload bytes through a buffer of three.
\<close>

theorem DecodeWithMaxLength_size_bounds_witness:
  "DecodeWithMaxLength small_lib snappy_off [3, 0xAA, 0xBB, 0xCC, 0xDD] 1048577
     = \<lparr>dec_result = Inl (MaxSizeExceedsChunkSize 1048577 1048576),
        dec_reader = [3, 0xAA, 0xBB, 0xCC, 0xDD], dec_buffer = None\<rparr>
   \<and> readVarint [3, 0xAA, 0xBB, 0xCC, 0xDD] = (Inr 3, [0xAA, 0xBB, 0xCC, 0xDD])
   \<and> DecodeWithMaxLength small_lib snappy_off [3, 0xAA, 0xBB, 0xCC, 0xDD] 2
       = \<lparr>dec_result = Inl (DecodedSizeExceedsMax 3 2),
          dec_reader = [0xAA, 0xBB, 0xCC, 0xDD], dec_buffer = None\<rparr>
   \<and> DecodeWithMaxLength small_lib snappy_off [3, 0xAA, 0xBB, 0xCC, 0xDD] 16
       = \<lparr>dec_result = Inr [0xAA, 0xBB, 0xCC], dec_reader = [0xDD], dec_buffer = Some 3\<rparr>"
proof -
  let ?r = "[3, 0xAA, 0xBB, 0xCC, 0xDD] :: byte list"
  have big: "MaxChunkSize < (1048577 :: 64 word)"
    by (simp add: MaxChunkSize_def)
  have small: "\<not> MaxChunkSize < (2 :: 64 word)"
    by (simp add: MaxChunkSize_def)
  have v: "readVarint ?r = (Inr 3, [0xAA, 0xBB, 0xCC, 0xDD])"
    by (simp add: readVarint_def readVarint_bytes_numeral)
  have ok: "DecodeWithMaxLength small_lib snappy_off ?r 16
       = \<lparr>dec_result = Inr [0xAA, 0xBB, 0xCC], dec_reader = [0xDD], dec_buffer = Some 3\<rparr>"
    using v
    by (simp add: DecodeWithMaxLength_def MaxChunkSize_def MaxLength_def Read_def doDecode_def
        small_lib_def snappy_off_def)
  have "DecodeWithMaxLength small_lib snappy_off ?r 1048577
     = \<lparr>dec_result = Inl (MaxSizeExceedsChunkSize 1048577 MaxChunkSize),
        dec_reader = ?r, dec_buffer = None\<rparr>"
    using DecodeWithMaxLength_size_bounds [of 1048577 small_lib snappy_off ?r] big
    by blast
  moreover have "DecodeWithMaxLength small_lib snappy_off ?r 2
       = \<lparr>dec_result = Inl (DecodedSizeExceedsMax 3 2),
          dec_reader = [0xAA, 0xBB, 0xCC, 0xDD], dec_buffer = None\<rparr>"
    using DecodeWithMaxLength_size_bounds
      [of 2 small_lib snappy_off ?r 3 "[0xAA, 0xBB, 0xCC, 0xDD]"] v small
    by simp
  ultimately show ?thesis
    using v ok by (simp add: MaxChunkSize_def)
qed

text \<open>
  C8, as the code has it. For a message that serialises to \<open>b\<close>, on a writer that takes
  the bytes, \<^verbatim>\<open>EncodeWithLength\<close> writes the varint of the length of \<open>b\<close>, the serialised
  message before any compression, and right after it the payload: \<open>b\<close> itself without
  compression (the varint is then the length of the payload), the snappy stream of \<open>b\<close>
  with it. It returns the length of \<open>b\<close> and no error.
\<close>

theorem EncodeWithLength_frame:
  assumes "ssz_Marshal lib m = Inr b"
    and "werr w = None"
  shows "EncodeWithLength lib e w (Some m)
           = ((int (length b), None),
              w\<lparr>sink := sink w @ EncodeVarint (of_nat (length b))
                          @ (if UseSnappyCompression e then snappy_stream lib b else b)\<rparr>)"
  using assms
  by (simp add: EncodeWithLength_def doEncode_def Write_def writeSnappyBuffer_def)

theorem EncodeWithLength_frame_witness:
  "EncodeWithLength small_lib snappy_off empty_writer (Some [7, 8, 9])
     = ((3, None), \<lparr>sink = [3, 7, 8, 9], werr = None\<rparr>)
   \<and> EncodeWithLength small_lib snappy_on empty_writer (Some [1])
     = ((1, None),
        \<lparr>sink = [1, 255, 6, 0, 0, 115, 78, 97, 80, 112, 89, 1, 5, 0, 0, 5, 43, 40, 67, 1],
         werr = None\<rparr>)"
proof -
  have m: "ssz_Marshal small_lib [7, 8, 9] = Inr [7, 8, 9]"
    "ssz_Marshal small_lib [1] = Inr [1]"
    by (simp_all add: small_lib_def)
  have w: "werr empty_writer = None"
    by (simp add: empty_writer_def)
  show ?thesis
    using EncodeWithLength_frame [OF m(1) w, of snappy_off]
      EncodeWithLength_frame [OF m(2) w, of snappy_on] small_stream
    by (simp add: EncodeVarint.simps snappy_on_def snappy_off_def empty_writer_def)
qed

text \<open>
  C8, as it is stated, fails with compression: for the one-byte message \<open>[1]\<close> the output
  is the byte 1 followed by a payload of 19 bytes, and the varint of 19 is the byte 19.
\<close>

theorem EncodeWithLength_varint_counterexample:
  "sink (snd (EncodeWithLength small_lib snappy_on empty_writer (Some [1])))
     = [1] @ [255, 6, 0, 0, 115, 78, 97, 80, 112, 89, 1, 5, 0, 0, 5, 43, 40, 67, 1]
   \<and> EncodeVarint (of_nat (length
         [255, 6, 0, 0, 115, 78, 97, 80, 112, 89, 1, 5, 0, 0, 5, 43, 40, 67, 1 :: byte])) = [19]"
  by (simp add: EncodeWithLength_def doEncode_def Write_def writeSnappyBuffer_def
      EncodeVarint.simps lib_defs Let_def)

text \<open>
  Without compression the round trip of C9 holds wherever the SSZ library's own does:
  \<^verbatim>\<open>Decode\<close> unmarshals the very bytes \<^verbatim>\<open>Encode\<close> wrote.
\<close>

lemma Decode_Encode_plain:
  assumes "\<not> UseSnappyCompression e"
    and "ssz_Marshal lib m = Inr b"
    and "ssz_Unmarshal lib b = Inr m"
    and "werr w = None" and "sink w = []"
  shows "Decode lib e (sink (snd (Encode lib e w (Some m)))) = Inr m"
  using assms
  by (simp add: Encode_def Decode_def doEncode_def doDecode_def Write_def)

text \<open>
  With compression \<^verbatim>\<open>Encode\<close> writes the snappy stream of the serialised message \<open>b\<close>, and
  \<^verbatim>\<open>Decode\<close> reads it once into a buffer as long as the stream: what it unmarshals is the
  first chunk \<open>d\<close> the stream decodes to, cut to the length of the stream.
\<close>

lemma Decode_Encode_snappy_short_buffer:
  assumes "UseSnappyCompression e"
    and "ssz_Marshal lib m = Inr b"
    and "werr w = None" and "sink w = []"
    and "snappy_block lib (snappy_stream lib b) = (Inr d, rest)"
  shows "Decode lib e (sink (snd (Encode lib e w (Some m))))
           = ssz_Unmarshal lib (take (length (snappy_stream lib b)) d)"
  using assms
  by (simp add: Encode_def Decode_def doEncode_def doDecode_def writeSnappyBuffer_def
      snappy_Read_def)

text \<open>
  C9 fails with compression. Take a message whose snappy stream is shorter than its
  serialisation \<open>b\<close>, and an SSZ library that unmarshals no byte string shorter than \<open>b\<close>
  to that message. Then \<^verbatim>\<open>Decode\<close> of the bytes \<^verbatim>\<open>Encode\<close> wrote does not give the
  message back: it returns an error or another message.
\<close>

theorem Decode_Encode_snappy_truncates:
  assumes "UseSnappyCompression e"
    and "ssz_Marshal lib m = Inr b"
    and "werr w = None" and "sink w = []"
    and "length (snappy_stream lib b) < length b"
    and "\<And>x. length x < length b \<Longrightarrow> ssz_Unmarshal lib x \<noteq> Inr m"
  shows "Decode lib e (sink (snd (Encode lib e w (Some m)))) \<noteq> Inr m"
proof -
  have enc: "sink (snd (Encode lib e w (Some m))) = snappy_stream lib b"
    using assms(1-4) by (simp add: Encode_def doEncode_def writeSnappyBuffer_def)
  show ?thesis
  proof (cases "snappy_block lib (snappy_stream lib b)")
    case (Pair res rest)
    show ?thesis
    proof (cases res)
      case (Inl err)
      with Pair enc assms(1) show ?thesis
        by (simp add: Decode_def snappy_Read_def)
    next
      case (Inr d)
      have "length (take (length (snappy_stream lib b)) d) < length b"
        using assms(5) by simp
      then have "ssz_Unmarshal lib (take (length (snappy_stream lib b)) d) \<noteq> Inr m"
        by (rule assms(6))
      with Inr Pair enc assms(1) show ?thesis
        by (simp add: Decode_def snappy_Read_def doDecode_def)
    qed
  qed
qed

text \<open>
  The message of 40 zero bytes: its block is 6 bytes, its stream 24, and the stream reads
  back as the 40 bytes.
\<close>

lemma zeros40:
  "replicate 40 (0 :: byte)
     = [0, 0, 0, 0, 0, 0, 0, 0, 0, 0, 0, 0, 0, 0, 0, 0, 0, 0, 0, 0,
        0, 0, 0, 0, 0, 0, 0, 0, 0, 0, 0, 0, 0, 0, 0, 0, 0, 0, 0, 0]"
  by (simp add: numeral_eq_Suc)

lemma zeros24:
  "replicate 24 (0 :: byte)
     = [0, 0, 0, 0, 0, 0, 0, 0, 0, 0, 0, 0, 0, 0, 0, 0, 0, 0, 0, 0, 0, 0, 0, 0]"
  by (simp add: numeral_eq_Suc)

lemma crc_zeros40:
  "snappy_crc [0, 0, 0, 0, 0, 0, 0, 0, 0, 0, 0, 0, 0, 0, 0, 0, 0, 0, 0, 0,
        0, 0, 0, 0, 0, 0, 0, 0, 0, 0, 0, 0, 0, 0, 0, 0, 0, 0, 0, 0] = 0x123D9D97"
  by (simp add: snappy_crc_def crc32c_def crc32c_byte_def crc32c_step_def Let_def)

lemma block_zeros40:
  "run_block [0, 0, 0, 0, 0, 0, 0, 0, 0, 0, 0, 0, 0, 0, 0, 0, 0, 0, 0, 0,
        0, 0, 0, 0, 0, 0, 0, 0, 0, 0, 0, 0, 0, 0, 0, 0, 0, 0, 0, 0] = [40, 0, 0, 154, 1, 0]"
  by (simp add: run_block_def EncodeVarint.simps emitLiteral_def emitCopy.simps)

lemma copy_back_numeral:
  "copy_back offset (numeral k) dst
     = copy_back offset (pred_numeral k) (dst @ [dst ! (length dst - offset)])"
  "copy_back offset 1 dst = dst @ [dst ! (length dst - offset)]"
  by (simp_all add: numeral_eq_Suc)

lemma decode_zeros40:
  "block_decode [40, 0, 0, 154, 1, 0]
     = Inr [0, 0, 0, 0, 0, 0, 0, 0, 0, 0, 0, 0, 0, 0, 0, 0, 0, 0, 0, 0,
        0, 0, 0, 0, 0, 0, 0, 0, 0, 0, 0, 0, 0, 0, 0, 0, 0, 0, 0, 0]"
  by (simp add: block_decode_def readVarint_bytes_numeral Let_def copy_back_numeral)

lemma run_stream_zeros:
  "snappy_stream run_lib (replicate 40 0)
     = [255, 6, 0, 0, 115, 78, 97, 80, 112, 89, 0, 10, 0, 0, 151, 157, 61, 18, 40, 0, 0, 154, 1, 0]"
  by (simp add: run_lib_def run_stream_def zeros40 block_zeros40 crc_zeros40 magicChunk_def
      le32_def)

lemma run_frame_zeros:
  "snappy_block run_lib
     [255, 6, 0, 0, 115, 78, 97, 80, 112, 89, 0, 10, 0, 0, 151, 157, 61, 18, 40, 0, 0, 154, 1, 0]
     = (Inr (replicate 40 0), [])"
  by (simp add: run_lib_def run_frame_def magicChunk_def Let_def decode_zeros40 crc_zeros40
      le32_def zeros40)

text \<open>
  For that message the stream has 24 bytes, \<^verbatim>\<open>Decode\<close> of what \<^verbatim>\<open>Encode\<close> wrote returns
  the message of 24 zero bytes, and that is not the message of 40 that went in.
\<close>

theorem Decode_Encode_snappy_truncates_witness:
  "length (snappy_stream run_lib (replicate 40 0)) = 24
   \<and> Decode run_lib snappy_on
        (sink (snd (Encode run_lib snappy_on empty_writer (Some (replicate 40 0)))))
       = Inr (replicate 24 0)
   \<and> Decode run_lib snappy_on
        (sink (snd (Encode run_lib snappy_on empty_writer (Some (replicate 40 0)))))
       \<noteq> Inr (replicate 40 0)"
proof -
  let ?m = "replicate 40 0 :: byte list"
  have on: "UseSnappyCompression snappy_on"
    by (simp add: snappy_on_def)
  have m: "ssz_Marshal run_lib ?m = Inr ?m"
    by (simp add: run_lib_def small_lib_def)
  have w: "werr empty_writer = None" "sink empty_writer = []"
    by (simp_all add: empty_writer_def)
  have short: "length (snappy_stream run_lib ?m) < length ?m"
    by (simp add: run_stream_zeros)
  have u: "ssz_Unmarshal run_lib x \<noteq> Inr ?m" if "length x < length ?m" for x
    using that by (auto simp: run_lib_def small_lib_def)
  have differs:
    "Decode run_lib snappy_on (sink (snd (Encode run_lib snappy_on empty_writer (Some ?m))))
       \<noteq> Inr ?m"
    using on m w short u by (rule Decode_Encode_snappy_truncates)
  have written: "sink (snd (Encode run_lib snappy_on empty_writer (Some ?m)))
          = snappy_stream run_lib ?m"
    using on m w by (simp add: Encode_def doEncode_def writeSnappyBuffer_def)
  have "Decode run_lib snappy_on (snappy_stream run_lib ?m) = Inr (replicate 24 0)"
    using on
    by (simp add: run_stream_zeros Decode_def snappy_Read_def run_frame_zeros doDecode_def)
      (simp add: run_lib_def small_lib_def zeros24)
  with differs written show ?thesis
    by (simp add: run_stream_zeros)
qed

text \<open>
  C10. For a nil message \<^verbatim>\<open>Encode\<close>, \<^verbatim>\<open>EncodeGossip\<close>, \<^verbatim>\<open>EncodeWithLength\<close> and
  \<^verbatim>\<open>EncodeWithMaxLength\<close> each return the count 0 and no error, and the writer is as it
  was: nothing is written.
\<close>

theorem nil_message_writes_nothing:
  "Encode lib e w None = ((0, None), w)
   \<and> EncodeGossip lib e w None = ((0, None), w)
   \<and> EncodeWithLength lib e w None = ((0, None), w)
   \<and> EncodeWithMaxLength lib e w None maxSize = ((0, None), w)"
  by (simp add: Encode_def EncodeGossip_def EncodeWithLength_def EncodeWithMaxLength_def)

end
